theory Spec2Isabelle
  imports Main
begin

section \<open>The run-time values and library functions the plugin uses\<close>

text \<open>
  The plugin is TypeScript running on a JavaScript engine. A string is modelled as a
  \<^typ>\<open>string\<close>: a list of code units, here restricted to the 8-bit range. A value that
  may be \<open>undefined\<close> is an \<^typ>\<open>'a option\<close>, with \<^term>\<open>None\<close> for \<open>undefined\<close>.
\<close>

subsection \<open>Numbers\<close>

text \<open>
  A \<open>number\<close> of the engine is a double. Every number the plugin computes comes from
  \<open>parseInt\<close>, from the literals 0 and 480, or from a sum or difference of such numbers, so it
  is \<open>NaN\<close>, an infinity (\<open>Infinity True\<close> is the negative one) or a double whose value is an
  integer: \<open>Num n\<close> stands for the double of value \<open>n\<close>. The negative zero that \<open>parseInt\<close> returns
  for \<open>-0\<close> is identified with zero: it prints as \<open>0\<close>, is equal to zero, and the plugin only
  adds, subtracts, compares and prints.
\<close>

datatype number = NaN | Infinity bool | Num int

text \<open>What the plugin's code can throw.\<close>

datatype error = TypeError

text \<open>The number of binary digits of a positive integer.\<close>

function bit_length :: "int \<Rightarrow> nat" where
  "bit_length n = (if n \<le> 0 then 0 else Suc (bit_length (n div 2)))"
  by pat_completeness auto
termination
  by (relation "measure nat") auto

declare bit_length.simps [simp del]

text \<open>
  The double nearest to an integer that is not negative, as an integer: 53 binary digits are
  kept, the rest is rounded to the nearest, and a tie to the even one. The result is \<open>2^1024\<close>
  for an integer that is too large for a double.
\<close>

definition nearest_double :: "int \<Rightarrow> int" where
  "nearest_double x =
     (if bit_length x \<le> 53 then x
      else let e = bit_length x - 53;
               q = x div 2 ^ e;
               r = x mod 2 ^ e;
               half = 2 ^ (e - 1)
           in if r < half \<or> (r = half \<and> even q) then q * 2 ^ e else (q + 1) * 2 ^ e)"

text \<open>The number for an integer: the nearest double, or an infinity.\<close>

definition to_number :: "int \<Rightarrow> number" where
  "to_number x =
     (let m = nearest_double \<bar>x\<bar>
      in if 2 ^ 1024 \<le> m then Infinity (x < 0)
         else Num (if x < 0 then - m else m))"

fun num_neg :: "number \<Rightarrow> number" where
  "num_neg NaN = NaN"
| "num_neg (Infinity negative) = Infinity (\<not> negative)"
| "num_neg (Num a) = Num (- a)"

text \<open>\<open>a + b\<close>: the exact sum, rounded to a double.\<close>

fun num_add :: "number \<Rightarrow> number \<Rightarrow> number" where
  "num_add (Num a) (Num b) = to_number (a + b)"
| "num_add (Infinity s) (Num b) = Infinity s"
| "num_add (Num a) (Infinity s) = Infinity s"
| "num_add (Infinity s) (Infinity t) = (if s = t then Infinity s else NaN)"
| "num_add _ _ = NaN"

text \<open>\<open>a - b\<close>.\<close>

definition num_sub :: "number \<Rightarrow> number \<Rightarrow> number" where
  "num_sub a b = num_add a (num_neg b)"

text \<open>\<open>a === b\<close> on numbers: \<open>NaN\<close> is not equal to anything, itself included.\<close>

fun strict_eq :: "number \<Rightarrow> number \<Rightarrow> bool" where
  "strict_eq (Num a) (Num b) = (a = b)"
| "strict_eq (Infinity s) (Infinity t) = (s = t)"
| "strict_eq _ _ = False"

fun isNaN :: "number \<Rightarrow> bool" where
  "isNaN NaN = True"
| "isNaN _ = False"

text \<open>Below zero.\<close>

fun is_negative :: "number \<Rightarrow> bool" where
  "is_negative NaN = False"
| "is_negative (Infinity negative) = negative"
| "is_negative (Num a) = (a < 0)"

subsection \<open>Numbers to strings\<close>

definition digit_char :: "int \<Rightarrow> char" where
  "digit_char d = char_of (48 + d)"

text \<open>The decimal digits of an integer that is not negative.\<close>

function show_nat :: "int \<Rightarrow> string" where
  "show_nat n = (if n < 10 then [digit_char n] else show_nat (n div 10) @ [digit_char (n mod 10)])"
  by pat_completeness auto
termination
  by (relation "measure nat") auto

declare show_nat.simps [simp del]

text \<open>
  The engine prints a number with the fewest digits that still denote it: digits \<open>s\<close> and a
  length \<open>n\<close> such that \<open>s\<close>, followed by zeros up to \<open>n\<close> digits in all, is an integer whose
  nearest double is the number. \<open>candidate x k\<close> looks for such an \<open>s\<close> of \<open>k\<close> digits: only the
  two \<open>k\<close>-digit beginnings around \<open>x\<close> can do, and of two that do, the one nearer to \<open>x\<close> is
  taken (the even one in a tie).
\<close>

definition candidate :: "int \<Rightarrow> nat \<Rightarrow> (int \<times> nat) option" where
  "candidate x k =
     (let n = length (show_nat x);
          e = n - k;
          lo = x div 10 ^ e;
          hi = lo + 1;
          lo_ok = (nearest_double (lo * 10 ^ e) = x);
          hi_ok = (nearest_double (hi * 10 ^ e) = x);
          lo_closer = (x - lo * 10 ^ e < hi * 10 ^ e - x
                        \<or> (x - lo * 10 ^ e = hi * 10 ^ e - x \<and> even lo))
      in if lo_ok \<and> (\<not> hi_ok \<or> lo_closer) then Some (lo, n)
         else if hi_ok then (if hi = 10 ^ k then Some (10 ^ (k - 1), n + 1) else Some (hi, n))
         else None)"

text \<open>The first \<open>k\<close> that has a candidate, from \<open>k\<close> on; all the digits of \<open>x\<close> always do.\<close>

fun shortest_from :: "int \<Rightarrow> nat \<Rightarrow> nat \<Rightarrow> int \<times> nat" where
  "shortest_from x k 0 = (x, length (show_nat x))"
| "shortest_from x k (Suc fuel) =
     (case candidate x k of Some c \<Rightarrow> c | None \<Rightarrow> shortest_from x (Suc k) fuel)"

definition shortest :: "int \<Rightarrow> int \<times> nat" where
  "shortest x = shortest_from x 1 (length (show_nat x))"

text \<open>
  A double of integer value that is not negative, printed: the digits and the zeros when
  there are at most 21 digits in all, and otherwise the first digit, the others after a
  point, \<open>e+\<close> and the exponent.
\<close>

definition nat_toString :: "int \<Rightarrow> string" where
  "nat_toString x =
     (if x = 0 then ''0''
      else case shortest x of (s, n) \<Rightarrow>
        (let digits = show_nat s; k = length digits
         in if n \<le> 21 then digits @ replicate (n - k) CHR ''0''
            else case digits of
                   [] \<Rightarrow> []
                 | d # ds \<Rightarrow>
                     (if ds = [] then [d] else d # CHR ''.'' # ds) @ ''e+'' @ show_nat (int n - 1)))"

text \<open>\<open>`${n}`\<close> for a number \<open>n\<close>.\<close>

fun number_toString :: "number \<Rightarrow> string" where
  "number_toString NaN = ''NaN''"
| "number_toString (Infinity negative) = (if negative then ''-Infinity'' else ''Infinity'')"
| "number_toString (Num i) = (if i < 0 then CHR ''-'' # nat_toString (- i) else nat_toString i)"

text \<open>\<open>`${v}`\<close> for a string \<open>v\<close> that may be \<open>undefined\<close>.\<close>

fun ToString :: "string option \<Rightarrow> string" where
  "ToString None = ''undefined''"
| "ToString (Some s) = s"

subsection \<open>\<open>parseInt\<close> with no radix argument\<close>

text \<open>
  White space that \<open>parseInt\<close> skips, in the 8-bit range: tab, line feed, vertical tab,
  form feed, carriage return, space and no-break space.
\<close>

definition StrWhiteSpaceChar :: "char \<Rightarrow> bool" where
  "StrWhiteSpaceChar c = (of_char c \<in> {9, 10, 11, 12, 13, 32, 160 :: nat})"

text \<open>The value of a character as a digit (letters count from ten, in either case).\<close>

definition digit_val :: "char \<Rightarrow> nat option" where
  "digit_val c = (let n = (of_char c :: nat) in
     if 48 \<le> n \<and> n \<le> 57 then Some (n - 48)
     else if 97 \<le> n \<and> n \<le> 122 then Some (n - 87)
     else if 65 \<le> n \<and> n \<le> 90 then Some (n - 55)
     else None)"

definition is_digit :: "nat \<Rightarrow> char \<Rightarrow> bool" where
  "is_digit R c = (case digit_val c of None \<Rightarrow> False | Some d \<Rightarrow> d < R)"

definition digits_value :: "nat \<Rightarrow> string \<Rightarrow> int" where
  "digits_value R Z =
     foldl (\<lambda>acc c. acc * int R + (case digit_val c of None \<Rightarrow> 0 | Some d \<Rightarrow> int d)) 0 Z"

text \<open>
  The result is the number for the integer that the digits denote, with its sign: the
  nearest double (engines round a long decimal token correctly, though they are allowed to
  read its digits after the twentieth as zeros), or an infinity.
\<close>

definition parseInt :: "string option \<Rightarrow> number" where
  "parseInt v =
     (let inputString = ToString v;
          S = dropWhile StrWhiteSpaceChar inputString;
          sign = (if take 1 S = ''-'' then - 1 else (1 :: int));
          S1 = (if take 1 S = ''+'' \<or> take 1 S = ''-'' then drop 1 S else S);
          stripPrefix = (take 2 S1 = ''0x'' \<or> take 2 S1 = ''0X'');
          R = (if stripPrefix then 16 else 10);
          S2 = (if stripPrefix then drop 2 S1 else S1);
          Z = takeWhile (is_digit R) S2
      in if Z = [] then NaN else to_number (sign * digits_value R Z))"

subsection \<open>Strings and arrays\<close>

text \<open>
  \<open>s.split(sep)\<close> for a separator string: the pieces between the successive occurrences
  of \<open>sep\<close>, found from left to right without overlap. \<open>cur\<close> is the piece being read.
  An empty separator splits between all code units.
\<close>

function split_from :: "string \<Rightarrow> string \<Rightarrow> string \<Rightarrow> string list" where
  "split_from sep cur [] = [cur]"
| "split_from sep cur (c # cs) =
     (if take (length sep) (c # cs) = sep
      then cur # split_from sep [] (drop (length sep - 1) cs)
      else split_from sep (cur @ [c]) cs)"
  by pat_completeness auto
termination
  by (relation "measure (\<lambda>(sep, cur, rest). length rest)") auto

definition split :: "string \<Rightarrow> string \<Rightarrow> string list" where
  "split sep s = (if sep = [] then map (\<lambda>c. [c]) s else split_from sep [] s)"

text \<open>\<open>xs.join(sep)\<close> on an array of strings.\<close>

fun join :: "string \<Rightarrow> string list \<Rightarrow> string" where
  "join sep [] = []"
| "join sep [x] = x"
| "join sep (x # y # ys) = x @ sep @ join sep (y # ys)"

text \<open>\<open>xs[i]\<close>: \<open>undefined\<close> past the end of the array.\<close>

definition index :: "'a list \<Rightarrow> nat \<Rightarrow> 'a option" where
  "index xs i = (if i < length xs then Some (xs ! i) else None)"

text \<open>\<open>xs.slice(a, b)\<close> for indices that are not negative.\<close>

definition slice :: "'a list \<Rightarrow> nat \<Rightarrow> nat \<Rightarrow> 'a list" where
  "slice xs a b = drop a (take b xs)"

text \<open>
  \<open>s.substring(start, end)\<close>: both indices are clamped to \<open>0 .. s.length\<close> (a negative one
  becomes 0) and swapped when the first is the larger.
\<close>

definition substring :: "string \<Rightarrow> int \<Rightarrow> int \<Rightarrow> string" where
  "substring s start end =
     (let len = int (length s);
          finalStart = min (max start 0) len;
          finalEnd = min (max end 0) len;
          from = min finalStart finalEnd;
          to = max finalStart finalEnd
      in take (nat (to - from)) (drop (nat from) s))"

subsection \<open>Regular expressions\<close>

text \<open>
  \<open>new RegExp(pattern, "g")\<close> is compiled by the engine, which is not part of the plugin:
  the model takes the compiled pattern as a parameter. \<open>rx s i = Some (n, caps)\<close> says that
  the pattern matches \<open>s\<close> at index \<open>i\<close>, the match being the \<open>n\<close> code units from \<open>i\<close> on, and
  that its capture groups hold \<open>caps\<close> (\<open>None\<close> for a group that took no part in the match).
\<close>

type_synonym RegExp = "string \<Rightarrow> nat \<Rightarrow> (nat \<times> string option list) option"

text \<open>A match: where it starts, its length, its capture groups.\<close>

type_synonym match = "nat \<times> nat \<times> string option list"

text \<open>
  One \<open>exec\<close> of a global pattern: the first index from \<open>lastIndex\<close> on where the pattern
  matches; no match once \<open>lastIndex\<close> is past the end of the string.
\<close>

function RegExpBuiltinExec :: "RegExp \<Rightarrow> string \<Rightarrow> nat \<Rightarrow> match option" where
  "RegExpBuiltinExec rx s lastIndex =
     (if lastIndex > length s then None
      else case rx s lastIndex of
        Some (n, caps) \<Rightarrow> Some (lastIndex, n, caps)
      | None \<Rightarrow> RegExpBuiltinExec rx s (lastIndex + 1))"
  by pat_completeness auto
termination
  by (relation "measure (\<lambda>(rx, s, lastIndex). length s + 1 - lastIndex)") auto

declare RegExpBuiltinExec.simps [simp del]

lemma RegExpBuiltinExec_Some:
  "RegExpBuiltinExec rx s k = Some (i, n, caps) \<Longrightarrow> k \<le> i \<and> i \<le> length s \<and> rx s i = Some (n, caps)"
proof (induction rx s k rule: RegExpBuiltinExec.induct)
  case (1 rx s lastIndex)
  show ?case
  proof (cases "rx s lastIndex")
    case None
    with 1 show ?thesis
      by (subst (asm) (2) RegExpBuiltinExec.simps) (auto split: if_splits)
  next
    case (Some a)
    with 1(2) show ?thesis
      by (subst (asm) RegExpBuiltinExec.simps) (auto split: if_splits)
  qed
qed

text \<open>
  \<open>s.matchAll(regex)\<close>: \<open>exec\<close> again and again, each time from the end of the last match;
  after an empty match the next search starts one code unit further.
\<close>

function matchAll_from :: "RegExp \<Rightarrow> string \<Rightarrow> nat \<Rightarrow> match list" where
  "matchAll_from rx s lastIndex =
     (case RegExpBuiltinExec rx s lastIndex of
        None \<Rightarrow> []
      | Some (i, n, caps) \<Rightarrow>
          (i, n, caps) # matchAll_from rx s (if n = 0 then i + n + 1 else i + n))"
  by pat_completeness auto
termination
proof (relation "measure (\<lambda>(rx, s, lastIndex). length s + 1 - lastIndex)")
  show "wf (measure (\<lambda>(rx, s, lastIndex). length s + 1 - lastIndex))"
    by simp
next
  fix rx :: RegExp and s :: string and lastIndex :: nat and x2 x1 x2a x1a x2b
  assume "RegExpBuiltinExec rx s lastIndex = Some x2" "(x1, x2a) = x2" "(x1a, x2b) = x2a"
  then have "RegExpBuiltinExec rx s lastIndex = Some (x1, x1a, x2b)"
    by simp
  from RegExpBuiltinExec_Some [OF this]
  show "((rx, s, if x1a = 0 then x1 + x1a + 1 else x1 + x1a), rx, s, lastIndex)
          \<in> measure (\<lambda>(rx, s, lastIndex). length s + 1 - lastIndex)"
    by auto
qed

declare matchAll_from.simps [simp del]

definition matchAll :: "RegExp \<Rightarrow> string \<Rightarrow> match list" where
  "matchAll rx s = matchAll_from rx s 0"

text \<open>A match as the array the engine returns: the matched text, then the groups.\<close>

definition match_array :: "string \<Rightarrow> match \<Rightarrow> string option list" where
  "match_array s m = (case m of (i, n, caps) \<Rightarrow> Some (take n (drop i s)) # caps)"

text \<open>\<open>xss.flat()\<close> on an array of arrays.\<close>

definition flat :: "'a list list \<Rightarrow> 'a list" where
  "flat xss = concat xss"

text \<open>\<open>xs.map(f)\<close> where \<open>f\<close> may throw: the first throw ends the whole call.\<close>

fun map_throw :: "('a \<Rightarrow> error + 'b) \<Rightarrow> 'a list \<Rightarrow> error + 'b list" where
  "map_throw f [] = Inr []"
| "map_throw f (x # xs) =
     (case f x of
        Inl e \<Rightarrow> Inl e
      | Inr y \<Rightarrow> (case map_throw f xs of Inl e \<Rightarrow> Inl e | Inr ys \<Rightarrow> Inr (y # ys)))"

subsection \<open>The default pattern\<close>

text \<open>
  A dot of a pattern matches any code unit but a line terminator (line feed and carriage
  return, in the 8-bit range).
\<close>

definition LineTerminator :: "char \<Rightarrow> bool" where
  "LineTerminator c = (c = CHR 0x0A \<or> c = CHR 0x0D)"

fun lastIndexOf :: "char \<Rightarrow> string \<Rightarrow> nat option" where
  "lastIndexOf c [] = None"
| "lastIndexOf c (x # xs) =
     (case lastIndexOf c xs of
        Some k \<Rightarrow> Some (Suc k)
      | None \<Rightarrow> if x = c then Some 0 else None)"

text \<open>
  The pattern of \<open>DEFAULT_SETTINGS\<close>, a backtick, \<open>tt\<close>, a space, \<open>.*\<close> and a backtick, as the
  engine matches it at index \<open>i\<close>: the four code units of the opening must stand there; the
  greedy \<open>.*\<close> takes the rest of the line and gives code units back until a backtick follows,
  so the match ends with the last backtick of the line. The pattern has no capture group.
\<close>

definition default_regexp :: RegExp where
  "default_regexp s i =
     (let r = drop i s in
      if take 4 r = [CHR 0x60, CHR ''t'', CHR ''t'', CHR '' '']
      then (case lastIndexOf (CHR 0x60) (takeWhile (\<lambda>c. \<not> LineTerminator c) (drop 4 r)) of
              None \<Rightarrow> None
            | Some k \<Rightarrow> Some (4 + k + 1, []))
      else None)"

section \<open>The plugin\<close>

text \<open>
  \<open>regexp\<close> holds the pattern as the engine compiles it; \<open>maxTimeInMinutes\<close> is what
  \<open>parseInt\<close> made of the text of the settings field, so it may be \<open>NaN\<close>.
\<close>

record MyPluginSettings =
  regexp :: RegExp
  presetTasks :: string
  maxTimeInMinutes :: number

definition DEFAULT_SETTINGS :: MyPluginSettings where
  "DEFAULT_SETTINGS = \<lparr>regexp = default_regexp, presetTasks = [], maxTimeInMinutes = Num 480\<rparr>"

text \<open>The fields \<open>id\<close>, \<open>time\<close> and \<open>text\<close> of the source; \<open>id\<close> is \<open>undefined\<close> when the match has no second token.\<close>

record TimeTrackerTemplateInfo =
  info_id :: "string option"
  info_time :: number
  info_text :: string

text \<open>The fields \<open>id\<close> and \<open>name\<close> of the source.\<close>

record PresetTask =
  task_id :: string
  task_name :: string

subsection \<open>\<open>getTimeTrackerTemplateInfo\<close>\<close>

text \<open>The function that \<open>getTimeTrackerTemplateInfo\<close> maps over the matched strings.\<close>

definition timeTrackerTemplateInfo :: "string \<Rightarrow> TimeTrackerTemplateInfo" where
  "timeTrackerTemplateInfo v =
     (let array = split '' '' v;
          jiraId = index array 1;
          minutes = index array 2;
          textTemp = join '' '' (slice array 3 (length array));
          textTemp = substring textTemp 0 (int (length textTemp) - 1);
          text = textTemp;
          minutesAsInt = parseInt minutes;
          minutesAsInt = (if isNaN minutesAsInt then Num 0 else minutesAsInt)
      in \<lparr>info_id = jiraId, info_time = minutesAsInt, info_text = text\<rparr>)"

text \<open>
  \<open>[...inputText.matchAll(regex)].flat()\<close>: every match's text, each followed by the
  match's capture groups.
\<close>

definition collection :: "MyPluginSettings \<Rightarrow> string \<Rightarrow> string option list" where
  "collection settings inputText =
     flat (map (match_array inputText) (matchAll (regexp settings) inputText))"

text \<open>\<open>v.split\<close> throws a \<open>TypeError\<close> on an element that is \<open>undefined\<close>.\<close>

definition getTimeTrackerTemplateInfo ::
  "MyPluginSettings \<Rightarrow> string \<Rightarrow> error + TimeTrackerTemplateInfo list" where
  "getTimeTrackerTemplateInfo settings inputText =
     map_throw (\<lambda>v. case v of None \<Rightarrow> Inl TypeError | Some s \<Rightarrow> Inr (timeTrackerTemplateInfo s))
       (collection settings inputText)"

text \<open>
  The same function in the earlier \<open>src/main.ts\<close>: the minutes are what \<open>parseInt\<close>
  returns, \<open>NaN\<close> included.
\<close>

definition timeTrackerTemplateInfo_earlier :: "string \<Rightarrow> TimeTrackerTemplateInfo" where
  "timeTrackerTemplateInfo_earlier v =
     (let array = split '' '' v;
          jiraId = index array 1;
          minutes = index array 2;
          textTemp = join '' '' (slice array 3 (length array));
          textTemp = substring textTemp 0 (int (length textTemp) - 1);
          text = textTemp
      in \<lparr>info_id = jiraId, info_time = parseInt minutes, info_text = text\<rparr>)"

subsection \<open>\<open>calculateMinutes\<close> and \<open>setMinutesTuStatusBar\<close>\<close>

definition calculateMinutes :: "MyPluginSettings \<Rightarrow> string \<Rightarrow> error + number" where
  "calculateMinutes settings text =
     (case getTimeTrackerTemplateInfo settings text of
        Inl e \<Rightarrow> Inl e
      | Inr infos \<Rightarrow>
          Inr (foldl (\<lambda>accumulator object. num_add accumulator (info_time object)) (Num 0) infos))"

text \<open>The result is the text that the status bar is set to; nothing is set after a throw.\<close>

definition setMinutesTuStatusBar :: "MyPluginSettings \<Rightarrow> string \<Rightarrow> error + string" where
  "setMinutesTuStatusBar settings text =
     (case calculateMinutes settings text of
        Inl e \<Rightarrow> Inl e
      | Inr sumMinutes \<Rightarrow>
          (let max' = maxTimeInMinutes settings;
               dif = num_sub max' sumMinutes;
               resultText =
                 (if strict_eq sumMinutes max'
                  then ''Minutes on file: '' @ [CHR 0x27] @ number_toString sumMinutes @ [CHR 0x27]
                  else ''Minutes on file: '' @ [CHR 0x27] @ number_toString sumMinutes @ [CHR 0x27]
                    @ ''. M: '' @ [CHR 0x27] @ number_toString max' @ [CHR 0x27]
                    @ ''. D: '' @ [CHR 0x27] @ number_toString dif @ [CHR 0x27])
           in Inr resultText))"

subsection \<open>\<open>getTimeTrackerTemplate\<close>\<close>

definition getTimeTrackerTemplate :: "TimeTrackerTemplateInfo list \<Rightarrow> string" where
  "getTimeTrackerTemplate info =
     join [CHR 0x0A]
       (map (\<lambda>value. ToString (info_id value) @ ''__'' @ number_toString (info_time value)
                       @ ''_'' @ info_text value) info)"

subsection \<open>\<open>getPresetTasks\<close>\<close>

text \<open>\<open>tasks.filter(item => !!item)\<close>: an object is truthy, \<open>undefined\<close> is not.\<close>

fun filter_truthy :: "'a option list \<Rightarrow> 'a list" where
  "filter_truthy [] = []"
| "filter_truthy (None # xs) = filter_truthy xs"
| "filter_truthy (Some x # xs) = x # filter_truthy xs"

definition getPresetTasks :: "MyPluginSettings \<Rightarrow> PresetTask list" where
  "getPresetTasks settings =
     (let tasks = map (\<lambda>v. let array = split ''___'' v in
                         if length array = 2
                         then Some \<lparr>task_id = array ! 0, task_name = array ! 1\<rparr>
                         else None)
                    (split [CHR 0x0A] (presetTasks settings))
      in filter_truthy tasks)"

subsection \<open>Notions that the statements use\<close>

text \<open>
  One match lies before another: it starts earlier and ends where the other starts, or before.
\<close>

definition precedes :: "match \<Rightarrow> match \<Rightarrow> bool" where
  "precedes a b = (case a of (i, n, _) \<Rightarrow> case b of (j, _, _) \<Rightarrow> i < j \<and> i + n \<le> j)"

text \<open>
  One line of the template: the id, two underscores, the minutes, one underscore, the
  description.
\<close>

definition template_line :: "TimeTrackerTemplateInfo \<Rightarrow> string" where
  "template_line r = ToString (info_id r) @ ''__'' @ number_toString (info_time r) @ ''_'' @ info_text r"

text \<open>
  Texts for the examples: two entries on two lines, two entries of \<open>2^53\<close> and 1 minutes, and
  two entries that sum to 500.
\<close>

definition two_lines :: string where
  "two_lines = ''x '' @ [CHR 0x60] @ ''tt A 1 a'' @ [CHR 0x60] @ [CHR 0x0A]
                 @ [CHR 0x60] @ ''tt B 2 b'' @ [CHR 0x60] @ '' y''"

definition rounded_sum :: string where
  "rounded_sum = [CHR 0x60] @ ''tt A 9007199254740992 a'' @ [CHR 0x60, CHR 0x0A, CHR 0x60] @ ''tt B 1 b'' @ [CHR 0x60]"

definition over_budget :: string where
  "over_budget = [CHR 0x60] @ ''tt A 300 a'' @ [CHR 0x60, CHR 0x0A, CHR 0x60] @ ''tt B 200 b'' @ [CHR 0x60]"

section \<open>Extraction on the documented example\<close>

text \<open>
  C1. With the default pattern, the text \<open>`tt ABC-1 30 did work`\<close> gives exactly one record:
  id \<open>ABC-1\<close>, 30 minutes, description \<open>did work\<close>, the closing backtick stripped.
\<close>

theorem default_example_record:
  "getTimeTrackerTemplateInfo DEFAULT_SETTINGS ([CHR 0x60] @ ''tt ABC-1 30 did work'' @ [CHR 0x60])
     = Inr [\<lparr>info_id = Some ''ABC-1'', info_time = Num 30, info_text = ''did work''\<rparr>]"
  by code_simp

section \<open>Facts about numbers\<close>

text \<open>
  An integer below \<open>2^53\<close> in absolute value is a double: the number for it is the integer
  itself.
\<close>

lemma bit_length_le: "n < 2 ^ k \<Longrightarrow> bit_length n \<le> k"
proof (induction k arbitrary: n)
  case 0
  then show ?case by (subst bit_length.simps) simp
next
  case (Suc k)
  show ?case
  proof (cases "n \<le> 0")
    case True
    then show ?thesis by (subst bit_length.simps) simp
  next
    case False
    from Suc.prems have "n div 2 < 2 ^ k" by simp
    from Suc.IH [OF this] False show ?thesis by (subst bit_length.simps) simp
  qed
qed

lemma nearest_double_exact: "x < 2 ^ 53 \<Longrightarrow> nearest_double x = x"
  by (simp add: nearest_double_def bit_length_le)

lemma to_number_exact:
  assumes "\<bar>x\<bar> < 2 ^ 53"
  shows "to_number x = Num x"
proof -
  from assms have "nearest_double \<bar>x\<bar> = \<bar>x\<bar>" by (rule nearest_double_exact)
  moreover have "(2 :: int) ^ 53 \<le> 2 ^ 1024"
    by (rule power_increasing) simp_all
  with assms have "\<not> (2 :: int) ^ 1024 \<le> \<bar>x\<bar>" by linarith
  ultimately show ?thesis by (auto simp: to_number_def Let_def)
qed

text \<open>The number for an integer is not \<open>NaN\<close>, and not negative unless the integer is.\<close>

lemma nearest_double_nonneg: "0 \<le> x \<Longrightarrow> 0 \<le> nearest_double x"
  by (simp add: nearest_double_def Let_def pos_imp_zdiv_nonneg_iff)

lemma to_number_not_NaN: "to_number x \<noteq> NaN"
  by (simp add: to_number_def Let_def)

lemma to_number_nonneg: "0 \<le> x \<Longrightarrow> \<not> is_negative (to_number x)"
  using nearest_double_nonneg [of x] by (simp add: to_number_def Let_def)

section \<open>Facts about the extraction\<close>

text \<open>The extraction returns records exactly when no element of the collection is \<open>undefined\<close>.\<close>

lemma map_throw_Inr_iff:
  "map_throw f xs = Inr ys \<longleftrightarrow> list_all2 (\<lambda>x y. f x = Inr y) xs ys"
proof (induction xs arbitrary: ys)
  case Nil
  show ?case by auto
next
  case (Cons x xs)
  show ?case
  proof (cases "f x")
    case (Inl e)
    then show ?thesis by (auto simp: list_all2_Cons1)
  next
    case (Inr y)
    then show ?thesis
      using Cons.IH by (cases "map_throw f xs") (auto simp: list_all2_Cons1)
  qed
qed

lemma extraction_Inr:
  "getTimeTrackerTemplateInfo settings inputText = Inr infos \<longleftrightarrow>
     (\<exists>vs. collection settings inputText = map Some vs \<and> infos = map timeTrackerTemplateInfo vs)"
proof -
  have "list_all2 (\<lambda>v r. (case v of None \<Rightarrow> Inl TypeError | Some s \<Rightarrow> Inr (timeTrackerTemplateInfo s)) = Inr r) c infos
          \<longleftrightarrow> (\<exists>vs. c = map Some vs \<and> infos = map timeTrackerTemplateInfo vs)" for c
  proof (induction c arbitrary: infos)
    case Nil
    show ?case by auto
  next
    case (Cons a c)
    show ?case
    proof (cases a)
      case None
      then show ?thesis by (auto simp: list_all2_Cons1 map_eq_Cons_conv)
    next
      case (Some str)
      then show ?thesis
        by (auto simp: list_all2_Cons1 Cons.IH map_eq_Cons_conv Cons_eq_map_conv)
    qed
  qed
  then show ?thesis
    by (simp add: getTimeTrackerTemplateInfo_def map_throw_Inr_iff)
qed



text \<open>What \<open>exec\<close> and \<open>matchAll\<close> find are matches of the pattern, at indices of the text.\<close>

lemma RegExpBuiltinExec_None:
  "(\<forall>i. k \<le> i \<and> i \<le> length s \<longrightarrow> rx s i = None) \<Longrightarrow> RegExpBuiltinExec rx s k = None"
proof (induction rx s k rule: RegExpBuiltinExec.induct)
  case (1 rx s lastIndex)
  show ?case
  proof (cases "lastIndex > length s")
    case True
    then show ?thesis by (subst RegExpBuiltinExec.simps) simp
  next
    case False
    with 1(2) have here: "rx s lastIndex = None" by simp
    from 1(2) have "\<forall>i. lastIndex + 1 \<le> i \<and> i \<le> length s \<longrightarrow> rx s i = None" by simp
    with 1(1) False here have "RegExpBuiltinExec rx s (lastIndex + 1) = None" by simp
    with False here show ?thesis by (subst RegExpBuiltinExec.simps) simp
  qed
qed

lemma matchAll_from_member:
  "(i, n, caps) \<in> set (matchAll_from rx s k) \<Longrightarrow> rx s i = Some (n, caps) \<and> k \<le> i \<and> i \<le> length s"
proof (induction rx s k rule: matchAll_from.induct)
  case (1 rx s lastIndex)
  show ?case
  proof (cases "RegExpBuiltinExec rx s lastIndex")
    case None
    with 1(2) show ?thesis by (subst (asm) matchAll_from.simps) simp
  next
    case (Some m)
    obtain j l cs where m: "m = (j, l, cs)" by (cases m)
    note ex = RegExpBuiltinExec_Some [OF Some [unfolded m]]
    from 1(2) Some m
    have "(i, n, caps) = (j, l, cs) \<or> (i, n, caps) \<in> set (matchAll_from rx s (if l = 0 then j + l + 1 else j + l))"
      by (subst (asm) matchAll_from.simps) simp
    then show ?thesis
    proof
      assume "(i, n, caps) = (j, l, cs)"
      with ex show ?thesis by simp
    next
      assume "(i, n, caps) \<in> set (matchAll_from rx s (if l = 0 then j + l + 1 else j + l))"
      from 1(1) [OF Some m [symmetric] refl this] ex show ?thesis
        by (auto split: if_splits)
    qed
  qed
qed

text \<open>A pattern with no capture group, such as the default one, never gives an \<open>undefined\<close> element.\<close>

lemma default_regexp_no_groups: "default_regexp s i = Some (n, caps) \<Longrightarrow> caps = []"
  by (auto simp: default_regexp_def Let_def split: if_splits option.splits)

lemma collection_no_groups:
  assumes "\<And>i n caps. regexp settings inputText i = Some (n, caps) \<Longrightarrow> caps = []"
  shows "None \<notin> set (collection settings inputText)"
proof
  assume "None \<in> set (collection settings inputText)"
  then obtain m where m: "m \<in> set (matchAll (regexp settings) inputText)"
      and none: "None \<in> set (match_array inputText m)"
    by (auto simp: collection_def flat_def)
  obtain i n caps where "m = (i, n, caps)" by (cases m)
  with m assms matchAll_from_member [of i n caps "regexp settings" inputText 0]
  have "m = (i, n, [])" by (auto simp: matchAll_def)
  with none show False by (simp add: match_array_def)
qed

lemma collection_default_defined:
  "regexp settings = default_regexp \<Longrightarrow> None \<notin> set (collection settings inputText)"
  by (rule collection_no_groups) (simp add: default_regexp_no_groups)

section \<open>Minutes that are not a number\<close>



text \<open>The earlier \<open>src/main.ts\<close> has no such fallback: there the minutes of that text are \<open>NaN\<close>.\<close>

lemma earlier_version_NaN:
  "info_time (timeTrackerTemplateInfo_earlier ([CHR 0x60] @ ''tt ABC-1 xx note'' @ [CHR 0x60])) = NaN"
  by code_simp

section \<open>A text with no match\<close>

text \<open>The default pattern matches nowhere in a text that has no backtick.\<close>

lemma default_regexp_needs_backtick:
  assumes "CHR 0x60 \<notin> set s"
  shows "default_regexp s i = None"
proof -
  have "take 4 (drop i s) \<noteq> [CHR 0x60, CHR ''t'', CHR ''t'', CHR '' '']"
  proof
    assume "take 4 (drop i s) = [CHR 0x60, CHR ''t'', CHR ''t'', CHR '' '']"
    then have "CHR 0x60 \<in> set (take 4 (drop i s))" by simp
    then have "CHR 0x60 \<in> set s" by (meson in_set_dropD in_set_takeD)
    with assms show False by simp
  qed
  then show ?thesis by (simp add: default_regexp_def)
qed

text \<open>
  C5. When the pattern matches at no index of the text, the extraction returns the empty
  sequence and the summed minutes are 0.
\<close>

theorem no_match_empty:
  assumes "\<forall>i\<le>length inputText. regexp settings inputText i = None"
  shows "getTimeTrackerTemplateInfo settings inputText = Inr []
         \<and> calculateMinutes settings inputText = Inr (Num 0)"
proof -
  from assms have "RegExpBuiltinExec (regexp settings) inputText 0 = None"
    by (intro RegExpBuiltinExec_None) simp
  then have "matchAll (regexp settings) inputText = []"
    unfolding matchAll_def by (subst matchAll_from.simps) simp
  then have "collection settings inputText = []"
    by (simp add: collection_def flat_def)
  then have "getTimeTrackerTemplateInfo settings inputText = Inr []"
    by (simp add: getTimeTrackerTemplateInfo_def)
  then show ?thesis by (simp add: calculateMinutes_def)
qed

text \<open>A text with no backtick, under the default settings.\<close>

theorem no_match_empty_witness:
  "getTimeTrackerTemplateInfo DEFAULT_SETTINGS ''no entry here'' = Inr []
   \<and> calculateMinutes DEFAULT_SETTINGS ''no entry here'' = Inr (Num 0)"
proof -
  have h: "\<forall>i\<le>length ''no entry here''. regexp DEFAULT_SETTINGS ''no entry here'' i = None"
    by (simp add: DEFAULT_SETTINGS_def default_regexp_needs_backtick)
  from no_match_empty [OF h] show ?thesis .
qed

section \<open>The order of the records\<close>

text \<open>
  The matches that \<open>matchAll\<close> returns stand in the text from left to right, without overlap.
\<close>

lemma matchAll_from_sorted: "sorted_wrt precedes (matchAll_from rx s k)"
proof (induction rx s k rule: matchAll_from.induct)
  case (1 rx s lastIndex)
  show ?case
  proof (cases "RegExpBuiltinExec rx s lastIndex")
    case None
    then show ?thesis by (subst matchAll_from.simps) simp
  next
    case (Some m)
    obtain j l cs where m: "m = (j, l, cs)" by (cases m)
    let ?next = "if l = 0 then j + l + 1 else j + l"
    have rest: "sorted_wrt precedes (matchAll_from rx s ?next)"
      by (rule 1 [OF Some m [symmetric] refl])
    have "precedes (j, l, cs) b" if "b \<in> set (matchAll_from rx s ?next)" for b
    proof -
      obtain i n caps where b: "b = (i, n, caps)" by (cases b)
      with that matchAll_from_member [of i n caps rx s ?next] have "?next \<le> i" by simp
      then show ?thesis by (auto simp: precedes_def b split: if_splits)
    qed
    with rest Some m show ?thesis by (subst matchAll_from.simps) simp
  qed
qed

lemma concat_map_Some:
  assumes "concat xss = map Some vs"
  shows "\<exists>vss. xss = map (map Some) vss \<and> vs = concat vss"
  using assms
proof (induction xss arbitrary: vs)
  case Nil
  then show ?case by simp
next
  case (Cons xs xss)
  from Cons.prems obtain us ws where vs: "vs = us @ ws" and xs: "xs = map Some us"
      and rest: "concat xss = map Some ws"
    by (auto simp: append_eq_map_conv)
  from Cons.IH [OF rest] obtain vss where "xss = map (map Some) vss" "ws = concat vss" by blast
  with vs xs show ?case by (intro exI [of _ "us # vss"]) simp
qed

text \<open>
  C6. When the extraction returns, its records are those of the matches, taken in the order
  of the matches, and the matches are ordered by their position in the text: each starts
  after the start, and not before the end, of the one before.
\<close>

theorem records_in_match_order:
  assumes "getTimeTrackerTemplateInfo settings inputText = Inr infos"
  shows "sorted_wrt precedes (matchAll (regexp settings) inputText)
         \<and> (\<exists>vss. map (match_array inputText) (matchAll (regexp settings) inputText) = map (map Some) vss
                  \<and> infos = concat (map (map timeTrackerTemplateInfo) vss))"
proof -
  from assms obtain vs where c: "collection settings inputText = map Some vs"
      and infos: "infos = map timeTrackerTemplateInfo vs"
    by (auto simp: extraction_Inr)
  from c have "concat (map (match_array inputText) (matchAll (regexp settings) inputText)) = map Some vs"
    by (simp add: collection_def flat_def)
  from concat_map_Some [OF this] obtain vss
    where "map (match_array inputText) (matchAll (regexp settings) inputText) = map (map Some) vss"
      and "vs = concat vss" by blast
  with infos show ?thesis
    by (auto simp: matchAll_def matchAll_from_sorted map_concat)
qed

text \<open>
  Two entries on two lines, under the default settings: the matches start at 2 and at 13.
\<close>

theorem records_in_match_order_witness:
  "getTimeTrackerTemplateInfo DEFAULT_SETTINGS two_lines
     = Inr [\<lparr>info_id = Some ''A'', info_time = Num 1, info_text = ''a''\<rparr>,
            \<lparr>info_id = Some ''B'', info_time = Num 2, info_text = ''b''\<rparr>]
   \<and> matchAll (regexp DEFAULT_SETTINGS) two_lines = [(2, 10, []), (13, 10, [])]
   \<and> sorted_wrt precedes (matchAll (regexp DEFAULT_SETTINGS) two_lines)
   \<and> (\<exists>vss. map (match_array two_lines) (matchAll (regexp DEFAULT_SETTINGS) two_lines) = map (map Some) vss
            \<and> [\<lparr>info_id = Some ''A'', info_time = Num 1, info_text = ''a''\<rparr>,
                \<lparr>info_id = Some ''B'', info_time = Num 2, info_text = ''b''\<rparr>]
                = concat (map (map timeTrackerTemplateInfo) vss))"
proof -
  have h: "getTimeTrackerTemplateInfo DEFAULT_SETTINGS two_lines
     = Inr [\<lparr>info_id = Some ''A'', info_time = Num 1, info_text = ''a''\<rparr>,
            \<lparr>info_id = Some ''B'', info_time = Num 2, info_text = ''b''\<rparr>]"
    by code_simp
  have m: "matchAll (regexp DEFAULT_SETTINGS) two_lines = [(2, 10, []), (13, 10, [])]"
    by code_simp
  from records_in_match_order [OF h] h m show ?thesis by blast
qed

section \<open>The sum of the minutes and the status bar\<close>

text \<open>
  C3, as stated, fails: the engine adds doubles, and the sum of the minutes \<open>2^53\<close> and 1 is
  \<open>2^53\<close>, which is what the status bar shows, while their arithmetic sum is \<open>2^53 + 1\<close>.
\<close>

theorem rounded_sum_counterexample:
  "getTimeTrackerTemplateInfo DEFAULT_SETTINGS rounded_sum
     = Inr [\<lparr>info_id = Some ''A'', info_time = Num 9007199254740992, info_text = ''a''\<rparr>,
            \<lparr>info_id = Some ''B'', info_time = Num 1, info_text = ''b''\<rparr>]
   \<and> calculateMinutes DEFAULT_SETTINGS rounded_sum = Inr (Num 9007199254740992)
   \<and> setMinutesTuStatusBar DEFAULT_SETTINGS rounded_sum
       = Inr (''Minutes on file: '' @ [CHR 0x27] @ ''9007199254740992'' @ [CHR 0x27]
              @ ''. M: '' @ [CHR 0x27] @ ''480'' @ [CHR 0x27]
              @ ''. D: '' @ [CHR 0x27] @ ''-9007199254740512'' @ [CHR 0x27])
   \<and> sum_list [9007199254740992, 1] = (9007199254740993 :: int)"
  by code_simp

text \<open>
  While the absolute values of the minutes add up to less than \<open>2^53\<close>, no addition of the
  \<open>reduce\<close> rounds.
\<close>

lemma reduce_exact:
  "map info_time infos = map Num ms \<Longrightarrow> \<bar>a\<bar> + sum_list (map abs ms) < 2 ^ 53 \<Longrightarrow>
   foldl (\<lambda>accumulator object. num_add accumulator (info_time object)) (Num a) infos
     = Num (a + sum_list ms)"
proof (induction infos arbitrary: a ms)
  case Nil
  then show ?case by simp
next
  case (Cons r infos)
  from Cons.prems(1) obtain n ns where ms: "ms = n # ns" and r: "info_time r = Num n"
      and rest: "map info_time infos = map Num ns"
    by (auto simp: Cons_eq_map_conv)
  have "0 \<le> sum_list (map abs ns)" by (rule sum_list_nonneg) auto
  with Cons.prems(2) have here: "\<bar>a + n\<bar> < 2 ^ 53" by (simp add: ms)
  from Cons.prems(2) have "\<bar>a + n\<bar> + sum_list (map abs ns) < 2 ^ 53" by (simp add: ms)
  from Cons.IH [OF rest this] to_number_exact [OF here] show ?case
    by (simp add: ms r add.assoc)
qed

text \<open>
  C3, amended. When the extraction returns, the status bar is set to
  \<open>Minutes on file: 'sum'\<close> when the sum equals the configured maximum, and otherwise to
  \<open>Minutes on file: 'sum'. M: 'max'. D: 'dif'\<close>, where \<open>sum\<close> is the sum of the minutes and
  \<open>dif = max - sum\<close>, both in the engine's arithmetic of doubles. The sum is the arithmetic sum
  of the minutes when their absolute values add up to less than \<open>2^53\<close>, and \<open>dif\<close> is the
  arithmetic difference, negative when the sum exceeds the maximum, when it is below \<open>2^53\<close>
  in absolute value.
\<close>

theorem status_text:
  assumes "getTimeTrackerTemplateInfo settings text = Inr infos"
  shows "\<exists>total. calculateMinutes settings text = Inr total
           \<and> setMinutesTuStatusBar settings text = Inr
               (if strict_eq total (maxTimeInMinutes settings)
                then ''Minutes on file: '' @ [CHR 0x27] @ number_toString total @ [CHR 0x27]
                else ''Minutes on file: '' @ [CHR 0x27] @ number_toString total @ [CHR 0x27]
                  @ ''. M: '' @ [CHR 0x27] @ number_toString (maxTimeInMinutes settings) @ [CHR 0x27]
                  @ ''. D: '' @ [CHR 0x27]
                  @ number_toString (num_sub (maxTimeInMinutes settings) total) @ [CHR 0x27])
           \<and> (\<forall>ms. map info_time infos = map Num ms \<and> sum_list (map abs ms) < 2 ^ 53
                  \<longrightarrow> total = Num (sum_list ms))
           \<and> (\<forall>m s. maxTimeInMinutes settings = Num m \<and> total = Num s \<and> \<bar>m - s\<bar> < 2 ^ 53
                  \<longrightarrow> num_sub (maxTimeInMinutes settings) total = Num (m - s))"
proof -
  let ?total = "foldl (\<lambda>accumulator object. num_add accumulator (info_time object)) (Num 0) infos"
  from assms have calc: "calculateMinutes settings text = Inr ?total"
    by (simp add: calculateMinutes_def)
  have bar: "setMinutesTuStatusBar settings text = Inr
               (if strict_eq ?total (maxTimeInMinutes settings)
                then ''Minutes on file: '' @ [CHR 0x27] @ number_toString ?total @ [CHR 0x27]
                else ''Minutes on file: '' @ [CHR 0x27] @ number_toString ?total @ [CHR 0x27]
                  @ ''. M: '' @ [CHR 0x27] @ number_toString (maxTimeInMinutes settings) @ [CHR 0x27]
                  @ ''. D: '' @ [CHR 0x27]
                  @ number_toString (num_sub (maxTimeInMinutes settings) ?total) @ [CHR 0x27])"
    by (simp add: setMinutesTuStatusBar_def calc Let_def)
  have exact: "?total = Num (sum_list ms)"
    if "map info_time infos = map Num ms" "sum_list (map abs ms) < 2 ^ 53" for ms
    using reduce_exact [OF that(1), of 0] that(2) by simp
  have dif: "num_sub (maxTimeInMinutes settings) ?total = Num (m - s)"
    if "maxTimeInMinutes settings = Num m" "?total = Num s" "\<bar>m - s\<bar> < 2 ^ 53" for m s
    using that to_number_exact [of "m - s"] by (simp add: num_sub_def)
  from calc bar exact dif show ?thesis by blast
qed

text \<open>
  Two entries of 300 and 200 minutes under the default maximum of 480: the sum is 500 and the
  difference is -20.
\<close>

theorem status_text_witness:
  "getTimeTrackerTemplateInfo DEFAULT_SETTINGS over_budget
     = Inr [\<lparr>info_id = Some ''A'', info_time = Num 300, info_text = ''a''\<rparr>,
            \<lparr>info_id = Some ''B'', info_time = Num 200, info_text = ''b''\<rparr>]
   \<and> calculateMinutes DEFAULT_SETTINGS over_budget = Inr (Num 500)
   \<and> setMinutesTuStatusBar DEFAULT_SETTINGS over_budget
       = Inr (''Minutes on file: '' @ [CHR 0x27] @ ''500'' @ [CHR 0x27]
              @ ''. M: '' @ [CHR 0x27] @ ''480'' @ [CHR 0x27]
              @ ''. D: '' @ [CHR 0x27] @ ''-20'' @ [CHR 0x27])"
proof -
  let ?infos = "[\<lparr>info_id = Some ''A'', info_time = Num 300, info_text = ''a''\<rparr>,
            \<lparr>info_id = Some ''B'', info_time = Num 200, info_text = ''b''\<rparr>]"
  have h: "getTimeTrackerTemplateInfo DEFAULT_SETTINGS over_budget = Inr ?infos"
    by code_simp
  have s1: "number_toString (Num 500) = ''500''" by code_simp
  have s2: "number_toString (Num 480) = ''480''" by code_simp
  have s3: "number_toString (Num (- 20)) = ''-20''" by code_simp
  have mx: "maxTimeInMinutes DEFAULT_SETTINGS = Num 480" by (simp add: DEFAULT_SETTINGS_def)
  from status_text [OF h] obtain total
    where calc: "calculateMinutes DEFAULT_SETTINGS over_budget = Inr total"
      and bar: "setMinutesTuStatusBar DEFAULT_SETTINGS over_budget = Inr
               (if strict_eq total (maxTimeInMinutes DEFAULT_SETTINGS)
                then ''Minutes on file: '' @ [CHR 0x27] @ number_toString total @ [CHR 0x27]
                else ''Minutes on file: '' @ [CHR 0x27] @ number_toString total @ [CHR 0x27]
                  @ ''. M: '' @ [CHR 0x27] @ number_toString (maxTimeInMinutes DEFAULT_SETTINGS) @ [CHR 0x27]
                  @ ''. D: '' @ [CHR 0x27]
                  @ number_toString (num_sub (maxTimeInMinutes DEFAULT_SETTINGS) total) @ [CHR 0x27])"
      and exact: "\<forall>ms. map info_time ?infos = map Num ms \<and> sum_list (map abs ms) < 2 ^ 53
                  \<longrightarrow> total = Num (sum_list ms)"
      and dif: "\<forall>m s. maxTimeInMinutes DEFAULT_SETTINGS = Num m \<and> total = Num s \<and> \<bar>m - s\<bar> < 2 ^ 53
                  \<longrightarrow> num_sub (maxTimeInMinutes DEFAULT_SETTINGS) total = Num (m - s)"
    by (elim exE conjE)
  have "map info_time ?infos = map Num [300, 200] \<and> sum_list (map abs [300, 200 :: int]) < 2 ^ 53"
    by simp
  with exact have total: "total = Num 500" by fastforce
  from dif mx total have "num_sub (maxTimeInMinutes DEFAULT_SETTINGS) total = Num (- 20)"
    by simp
  with calc bar h total mx s1 s2 s3 show ?thesis by simp
qed

text \<open>
  One entry of 480 minutes: the sum equals the maximum, and the short text is shown.
\<close>

lemma on_budget_status:
  "setMinutesTuStatusBar DEFAULT_SETTINGS ([CHR 0x60] @ ''tt A 480 a'' @ [CHR 0x60])
     = Inr (''Minutes on file: '' @ [CHR 0x27] @ ''480'' @ [CHR 0x27])"
  by code_simp

section \<open>The template\<close>

text \<open>
  No number prints with a line feed, and splitting at line feeds undoes the joining of
  lines that have none.
\<close>

lemma digit_char_not_newline: "0 \<le> d \<Longrightarrow> d < 10 \<Longrightarrow> digit_char d \<noteq> CHR 0x0A"
proof
  assume d: "0 \<le> d" "d < 10" and "digit_char d = CHR 0x0A"
  then have "of_char (char_of (48 + d) :: char) = (of_char (CHR 0x0A) :: int)"
    by (simp add: digit_char_def)
  with d show False by simp
qed

lemma show_nat_no_newline: "0 \<le> n \<Longrightarrow> CHR 0x0A \<notin> set (show_nat n)"
proof (induction n rule: show_nat.induct)
  case (1 n)
  show ?case
  proof (cases "n < 10")
    case True
    with 1(2) show ?thesis
      using digit_char_not_newline [of n] by (subst show_nat.simps) auto
  next
    case False
    with 1 have "CHR 0x0A \<notin> set (show_nat (n div 10))" by simp
    moreover have "digit_char (n mod 10) \<noteq> CHR 0x0A"
      by (rule digit_char_not_newline) simp_all
    ultimately show ?thesis using False by (subst show_nat.simps) auto
  qed
qed

lemma candidate_nonneg:
  assumes "0 \<le> x" and "candidate x k = Some (s, n)"
  shows "0 \<le> s"
proof -
  let ?lo = "x div 10 ^ (length (show_nat x) - k)"
  from assms(1) have "0 \<le> ?lo" by (simp add: pos_imp_zdiv_nonneg_iff)
  with assms(2) show ?thesis
    by (auto simp: candidate_def Let_def split: if_splits)
qed

lemma shortest_from_nonneg: "0 \<le> x \<Longrightarrow> 0 \<le> fst (shortest_from x k fuel)"
proof (induction fuel arbitrary: k)
  case 0
  then show ?case by simp
next
  case (Suc fuel)
  show ?case
  proof (cases "candidate x k")
    case None
    with Suc show ?thesis by simp
  next
    case (Some c)
    obtain s n where "c = (s, n)" by (cases c)
    with Some candidate_nonneg [OF Suc.prems, of k s n] show ?thesis by simp
  qed
qed

lemma nat_toString_no_newline:
  assumes "0 \<le> x"
  shows "CHR 0x0A \<notin> set (nat_toString x)"
proof (cases "x = 0")
  case True
  then show ?thesis by (simp add: nat_toString_def)
next
  case False
  obtain s n where sn: "shortest x = (s, n)" by (cases "shortest x")
  with shortest_from_nonneg [OF assms, of 1 "length (show_nat x)"] have "0 \<le> s"
    by (simp add: shortest_def)
  then have digits: "CHR 0x0A \<notin> set (show_nat s)" by (rule show_nat_no_newline)
  show ?thesis
  proof (cases "n \<le> 21")
    case True
    with False sn digits show ?thesis by (simp add: nat_toString_def Let_def)
  next
    case big: False
    then have "CHR 0x0A \<notin> set (show_nat (int n - 1))" by (intro show_nat_no_newline) simp
    with False sn digits big show ?thesis
      by (cases "show_nat s") (auto simp: nat_toString_def Let_def)
  qed
qed

lemma number_toString_no_newline: "CHR 0x0A \<notin> set (number_toString x)"
  by (cases x) (simp_all add: nat_toString_no_newline)

lemma split_from_piece:
  "c \<notin> set l \<Longrightarrow> split_from [c] cur (l @ c # rest) = (cur @ l) # split_from [c] [] rest"
  by (induction l arbitrary: cur) auto

lemma split_from_last: "c \<notin> set l \<Longrightarrow> split_from [c] cur l = [cur @ l]"
  by (induction l arbitrary: cur) auto

lemma split_join:
  assumes "ls \<noteq> []" and "\<forall>l\<in>set ls. c \<notin> set l"
  shows "split [c] (join [c] ls) = ls"
  using assms
proof (induction "[c]" ls rule: join.induct)
  case 1
  then show ?case by simp
next
  case (2 x)
  then show ?case by (simp add: split_def split_from_last)
next
  case (3 x y ys)
  then have "split_from [c] [] (join [c] (y # ys)) = y # ys" by (simp add: split_def)
  with 3(3) show ?case by (simp add: split_def split_from_piece)
qed

text \<open>
  C4. \<open>getTimeTrackerTemplate\<close> writes one line for each record, in the order of the
  records: the id, two underscores, the minutes, one underscore, the description. The lines
  are joined by one line feed each, with none at the end: no record gives the empty text, one
  record gives its line, and a record before others gives its line, a line feed and the
  template of the others. When no id and no description holds a line feed, the lines of the
  template of a sequence that is not empty are exactly the lines of its records. The record
  (ABC-1, 30, did work) gives \<open>ABC-1__30_did work\<close>.
\<close>

theorem template_lines:
  "getTimeTrackerTemplate [] = []
   \<and> getTimeTrackerTemplate [r] = template_line r
   \<and> getTimeTrackerTemplate (r # r' # rs) = template_line r @ [CHR 0x0A] @ getTimeTrackerTemplate (r' # rs)
   \<and> (info \<noteq> [] \<and> (\<forall>x\<in>set info. CHR 0x0A \<notin> set (ToString (info_id x)) \<and> CHR 0x0A \<notin> set (info_text x))
        \<longrightarrow> split [CHR 0x0A] (getTimeTrackerTemplate info) = map template_line info)
   \<and> getTimeTrackerTemplate [\<lparr>info_id = Some ''ABC-1'', info_time = Num 30, info_text = ''did work''\<rparr>]
        = ''ABC-1__30_did work''"
proof -
  have t: "getTimeTrackerTemplate xs = join [CHR 0x0A] (map template_line xs)" for xs
    unfolding getTimeTrackerTemplate_def template_line_def by (rule refl)
  have "split [CHR 0x0A] (getTimeTrackerTemplate info) = map template_line info"
    if "info \<noteq> []"
      and "\<forall>x\<in>set info. CHR 0x0A \<notin> set (ToString (info_id x)) \<and> CHR 0x0A \<notin> set (info_text x)"
  proof -
    from that(2) have "\<forall>l\<in>set (map template_line info). CHR 0x0A \<notin> set l"
      by (auto simp: template_line_def number_toString_no_newline)
    with that(1) show ?thesis by (simp add: t split_join)
  qed
  moreover have "getTimeTrackerTemplate [\<lparr>info_id = Some ''ABC-1'', info_time = Num 30, info_text = ''did work''\<rparr>]
        = ''ABC-1__30_did work''"
    by code_simp
  ultimately show ?thesis by (simp add: t)
qed

text \<open>
  Two records, one of them with an \<open>undefined\<close> id and negative minutes.
\<close>

theorem template_lines_witness:
  "split [CHR 0x0A] (getTimeTrackerTemplate
       [\<lparr>info_id = Some ''A'', info_time = Num 1, info_text = ''a''\<rparr>,
        \<lparr>info_id = None, info_time = Num (- 2), info_text = ''b c''\<rparr>])
     = [''A__1_a'', ''undefined__-2_b c'']
   \<and> getTimeTrackerTemplate
       [\<lparr>info_id = Some ''A'', info_time = Num 1, info_text = ''a''\<rparr>,
        \<lparr>info_id = None, info_time = Num (- 2), info_text = ''b c''\<rparr>]
     = ''A__1_a'' @ [CHR 0x0A] @ ''undefined__-2_b c''"
proof -
  let ?a = "\<lparr>info_id = Some ''A'', info_time = Num 1, info_text = ''a''\<rparr>"
  let ?b = "\<lparr>info_id = None, info_time = Num (- 2), info_text = ''b c''\<rparr>"
  have la: "template_line ?a = ''A__1_a''" by code_simp
  have lb: "template_line ?b = ''undefined__-2_b c''" by code_simp
  have h: "[?a, ?b] \<noteq> [] \<and> (\<forall>x\<in>set [?a, ?b]. CHR 0x0A \<notin> set (ToString (info_id x)) \<and> CHR 0x0A \<notin> set (info_text x))"
    by simp
  from template_lines [of ?a ?b "[]" "[?a, ?b]"] template_lines [of ?b] h
  have "split [CHR 0x0A] (getTimeTrackerTemplate [?a, ?b]) = map template_line [?a, ?b]"
    and "getTimeTrackerTemplate [?a, ?b] = template_line ?a @ [CHR 0x0A] @ getTimeTrackerTemplate [?b]"
    and "getTimeTrackerTemplate [?b] = template_line ?b"
    by blast+
  then show ?thesis by (simp only: la lb list.map)
qed

section \<open>The preset tasks\<close>

text \<open>
  \<open>split\<close> cuts a text at its separators: joining the pieces with the separator gives the
  text back.
\<close>

lemma split_from_nonempty: "split_from sep cur s \<noteq> []"
  by (induction sep cur s rule: split_from.induct) simp_all

lemma join_Cons: "ys \<noteq> [] \<Longrightarrow> join sep (x # ys) = x @ sep @ join sep ys"
  by (cases ys) simp_all

lemma join_split_from:
  "sep \<noteq> [] \<Longrightarrow> join sep (split_from sep cur s) = cur @ s"
proof (induction sep cur s rule: split_from.induct)
  case (1 sep cur)
  show ?case by simp
next
  case (2 sep cur c cs)
  show ?case
  proof (cases "take (length sep) (c # cs) = sep")
    case True
    let ?rest = "drop (length sep - 1) cs"
    from 2(3) have "drop (length sep) (c # cs) = ?rest"
      by (cases sep) simp_all
    with True have cs: "c # cs = sep @ ?rest"
      by (metis append_take_drop_id)
    from 2(1) [OF True 2(3)] have IH: "join sep (split_from sep [] ?rest) = ?rest"
      by simp
    have "split_from sep cur (c # cs) = cur # split_from sep [] ?rest"
      using True by simp
    then have "join sep (split_from sep cur (c # cs)) = cur @ sep @ ?rest"
      by (simp only: join_Cons [OF split_from_nonempty] IH)
    with cs show ?thesis by simp
  next
    case False
    with 2(2) [OF False 2(3)] show ?thesis by simp
  qed
qed

lemma join_split: "sep \<noteq> [] \<Longrightarrow> join sep (split sep s) = s"
  by (simp add: split_def join_split_from)

lemma filter_truthy_map:
  "filter_truthy (map (\<lambda>v. if P (f v) then Some (g (f v)) else None) xs) = map g (filter P (map f xs))"
  by (induction xs) simp_all

text \<open>
  C7. \<open>getPresetTasks\<close> splits the setting into lines and every line at \<open>___\<close>; its tasks
  are the lines that split into exactly two fields, the id and the name, in the order of the
  setting; every other line is dropped. The setting \<open>A___Alpha\<close>, \<open>BAD\<close>, \<open>B___Beta\<close> (three
  lines) gives the two tasks (A, Alpha) and (B, Beta).
\<close>

theorem preset_tasks:
  "getPresetTasks settings
     = map (\<lambda>array. \<lparr>task_id = array ! 0, task_name = array ! 1\<rparr>)
         (filter (\<lambda>array. length array = 2)
            (map (split ''___'') (split [CHR 0x0A] (presetTasks settings))))
   \<and> getPresetTasks (settings\<lparr>presetTasks := ''A___Alpha'' @ [CHR 0x0A] @ ''BAD'' @ [CHR 0x0A] @ ''B___Beta''\<rparr>)
     = [\<lparr>task_id = ''A'', task_name = ''Alpha''\<rparr>, \<lparr>task_id = ''B'', task_name = ''Beta''\<rparr>]"
proof -
  have g: "getPresetTasks s
     = map (\<lambda>array. \<lparr>task_id = array ! 0, task_name = array ! 1\<rparr>)
         (filter (\<lambda>array. length array = 2)
            (map (split ''___'') (split [CHR 0x0A] (presetTasks s))))" for s
    unfolding getPresetTasks_def Let_def
    by (rule filter_truthy_map [of "\<lambda>array. length array = 2" "split ''___''"])
  let ?X = "''A___Alpha'' @ [CHR 0x0A] @ ''BAD'' @ [CHR 0x0A] @ ''B___Beta''"
  have s1: "split [CHR 0x0A] ?X = [''A___Alpha'', ''BAD'', ''B___Beta'']" by code_simp
  have s2: "map (split ''___'') [''A___Alpha'', ''BAD'', ''B___Beta''] = [[''A'', ''Alpha''], [''BAD''], [''B'', ''Beta'']]"
    by code_simp
  have p: "presetTasks (settings\<lparr>presetTasks := ?X\<rparr>) = ?X" by simp
  have "getPresetTasks (settings\<lparr>presetTasks := ?X\<rparr>)
     = [\<lparr>task_id = ''A'', task_name = ''Alpha''\<rparr>, \<lparr>task_id = ''B'', task_name = ''Beta''\<rparr>]"
    unfolding g p s1 s2 by simp
  with g [of settings] show ?thesis by (rule conjI)
qed

section \<open>Minutes below zero\<close>

text \<open>
  C8, as stated, fails: the minutes token \<open>-30\<close> gives a record with -30 minutes.
\<close>

theorem negative_minutes_counterexample:
  "getTimeTrackerTemplateInfo DEFAULT_SETTINGS ([CHR 0x60] @ ''tt ABC-1 -30 note'' @ [CHR 0x60])
     = Inr [\<lparr>info_id = Some ''ABC-1'', info_time = Num (- 30), info_text = ''note''\<rparr>]"
  by code_simp

text \<open>
  The minutes are not always an integer either: a token of 310 digits is too large for a
  double, and its minutes are infinite.
\<close>

lemma infinite_minutes:
  "parseInt (Some (CHR ''1'' # replicate 309 CHR ''0'')) = Infinity False"
  by code_simp

text \<open>
  \<open>parseInt\<close> returns a negative number only for a text that, after its leading white space,
  starts with a minus sign.
\<close>

lemma digits_value_nonneg: "0 \<le> digits_value R Z"
proof -
  have "0 \<le> foldl (\<lambda>acc c. acc * int R + (case digit_val c of None \<Rightarrow> 0 | Some d \<Rightarrow> int d)) a Z"
    if "0 \<le> a" for a
    using that by (induction Z arbitrary: a) (auto split: option.splits)
  then show ?thesis by (simp add: digits_value_def)
qed

lemma parseInt_negative:
  assumes "is_negative (parseInt t)"
  shows "take 1 (dropWhile StrWhiteSpaceChar (ToString t)) = ''-''"
proof (rule ccontr)
  assume "take 1 (dropWhile StrWhiteSpaceChar (ToString t)) \<noteq> ''-''"
  then have "\<not> is_negative (parseInt t)"
    by (simp add: parseInt_def Let_def to_number_nonneg digits_value_nonneg)
  with assms show False by simp
qed

lemma info_time_sign:
  "info_time (timeTrackerTemplateInfo v) \<noteq> NaN
   \<and> (\<not> is_negative (info_time (timeTrackerTemplateInfo v))
        \<or> take 1 (dropWhile StrWhiteSpaceChar (ToString (index (split '' '' v) 2))) = ''-'')"
proof (cases "isNaN (parseInt (index (split '' '' v) 2))")
  case True
  then show ?thesis by (simp add: timeTrackerTemplateInfo_def Let_def)
next
  case False
  then have t: "info_time (timeTrackerTemplateInfo v) = parseInt (index (split '' '' v) 2)"
    by (simp add: timeTrackerTemplateInfo_def Let_def)
  from False have "parseInt (index (split '' '' v) 2) \<noteq> NaN" by auto
  with t parseInt_negative [of "index (split '' '' v) 2"] show ?thesis by auto
qed

text \<open>
  C8, amended. Every record of the extraction has a number other than \<open>NaN\<close> for its minutes
  (an integer, rounded to a double, or an infinity for a token too large for a double); the
  number is not negative unless the minutes token, after its leading white space, starts with
  a minus sign.
\<close>

theorem minutes_number_sign:
  assumes "getTimeTrackerTemplateInfo settings inputText = Inr infos"
  shows "\<exists>vs. collection settings inputText = map Some vs
           \<and> infos = map timeTrackerTemplateInfo vs
           \<and> list_all (\<lambda>v. info_time (timeTrackerTemplateInfo v) \<noteq> NaN
                 \<and> (\<not> is_negative (info_time (timeTrackerTemplateInfo v))
                      \<or> take 1 (dropWhile StrWhiteSpaceChar (ToString (index (split '' '' v) 2))) = ''-'')) vs"
proof -
  from assms obtain vs where "collection settings inputText = map Some vs"
      and "infos = map timeTrackerTemplateInfo vs"
    by (auto simp: extraction_Inr)
  moreover have "list_all (\<lambda>v. info_time (timeTrackerTemplateInfo v) \<noteq> NaN
                 \<and> (\<not> is_negative (info_time (timeTrackerTemplateInfo v))
                      \<or> take 1 (dropWhile StrWhiteSpaceChar (ToString (index (split '' '' v) 2))) = ''-'')) vs"
    using info_time_sign by (simp add: list_all_iff)
  ultimately show ?thesis by blast
qed

text \<open>
  The text of the counterexample: its minutes are negative, and its minutes token starts
  with a minus sign.
\<close>

theorem minutes_number_sign_witness:
  "collection DEFAULT_SETTINGS ([CHR 0x60] @ ''tt ABC-1 -30 note'' @ [CHR 0x60])
     = map Some [[CHR 0x60] @ ''tt ABC-1 -30 note'' @ [CHR 0x60]]
   \<and> getTimeTrackerTemplateInfo DEFAULT_SETTINGS ([CHR 0x60] @ ''tt ABC-1 -30 note'' @ [CHR 0x60])
     = Inr (map timeTrackerTemplateInfo [[CHR 0x60] @ ''tt ABC-1 -30 note'' @ [CHR 0x60]])
   \<and> info_time (timeTrackerTemplateInfo ([CHR 0x60] @ ''tt ABC-1 -30 note'' @ [CHR 0x60])) = Num (- 30)
   \<and> take 1 (dropWhile StrWhiteSpaceChar
         (ToString (index (split '' '' ([CHR 0x60] @ ''tt ABC-1 -30 note'' @ [CHR 0x60])) 2))) = ''-''"
proof -
  let ?t = "[CHR 0x60] @ ''tt ABC-1 -30 note'' @ [CHR 0x60]"
  have h: "getTimeTrackerTemplateInfo DEFAULT_SETTINGS ?t
     = Inr [\<lparr>info_id = Some ''ABC-1'', info_time = Num (- 30), info_text = ''note''\<rparr>]"
    by code_simp
  have c: "collection DEFAULT_SETTINGS ?t = [Some ?t]" by code_simp
  have m: "info_time (timeTrackerTemplateInfo ?t) = Num (- 30)" by code_simp
  from minutes_number_sign [OF h] obtain vs
    where vs: "collection DEFAULT_SETTINGS ?t = map Some vs"
      and infos: "[\<lparr>info_id = Some ''ABC-1'', info_time = Num (- 30), info_text = ''note''\<rparr>]
                    = map timeTrackerTemplateInfo vs"
      and all: "list_all (\<lambda>v. info_time (timeTrackerTemplateInfo v) \<noteq> NaN
                 \<and> (\<not> is_negative (info_time (timeTrackerTemplateInfo v))
                      \<or> take 1 (dropWhile StrWhiteSpaceChar (ToString (index (split '' '' v) 2))) = ''-'')) vs"
    by (elim exE conjE)
  from vs have v: "vs = [?t]" unfolding c by (cases vs) auto
  from all have "\<not> is_negative (info_time (timeTrackerTemplateInfo ?t))
      \<or> take 1 (dropWhile StrWhiteSpaceChar (ToString (index (split '' '' ?t) 2))) = ''-''"
    unfolding v by simp
  then have sign: "take 1 (dropWhile StrWhiteSpaceChar (ToString (index (split '' '' ?t) 2))) = ''-''"
    unfolding m by simp
  from vs infos h have "collection DEFAULT_SETTINGS ?t = map Some [?t]"
      and "getTimeTrackerTemplateInfo DEFAULT_SETTINGS ?t = Inr (map timeTrackerTemplateInfo [?t])"
    unfolding v by (simp_all only:)
  with m sign show ?thesis by (intro conjI)
qed

section \<open>Matches with fewer than three tokens\<close>

text \<open>
  C9, as stated, fails: under the default pattern the text of a backtick, \<open>tt\<close>, a space and
  a backtick is a match that splits into two tokens, and the extraction returns a record for it.
\<close>

theorem two_tokens_counterexample:
  "split '' '' ([CHR 0x60] @ ''tt '' @ [CHR 0x60]) = [[CHR 0x60] @ ''tt'', [CHR 0x60]]
   \<and> getTimeTrackerTemplateInfo DEFAULT_SETTINGS ([CHR 0x60] @ ''tt '' @ [CHR 0x60])
       = Inr [\<lparr>info_id = Some [CHR 0x60], info_time = Num 0, info_text = []\<rparr>]"
  by code_simp

lemma parseInt_undefined: "parseInt None = NaN"
  by code_simp

lemma short_match:
  assumes "length (split '' '' v) < 3"
  shows "timeTrackerTemplateInfo v = \<lparr>info_id = index (split '' '' v) 1, info_time = Num 0, info_text = []\<rparr>"
proof -
  from assms have "index (split '' '' v) 2 = None" by (simp add: index_def)
  moreover from assms have "slice (split '' '' v) 3 (length (split '' '' v)) = []"
    by (simp add: slice_def)
  moreover have "substring [] 0 (int (length ([] :: string)) - 1) = []"
    by (simp add: substring_def)
  ultimately show ?thesis
    by (simp add: timeTrackerTemplateInfo_def Let_def parseInt_undefined)
qed

lemma collection_empty_iff:
  "collection settings inputText = [] \<longleftrightarrow> matchAll (regexp settings) inputText = []"
  by (cases "matchAll (regexp settings) inputText")
     (simp_all add: collection_def flat_def match_array_def split: prod.splits)

text \<open>
  C9, amended. When the extraction returns, it returns one record for each element of the
  collection, so the empty sequence only when the text has no match; the record of a matched
  string with fewer than three tokens has 0 minutes, the empty description, and for its id
  the second token, or \<open>undefined\<close> when there is none.
\<close>

theorem short_match_record:
  assumes "getTimeTrackerTemplateInfo settings inputText = Inr infos"
  shows "length infos = length (collection settings inputText)
         \<and> (infos = [] \<longleftrightarrow> matchAll (regexp settings) inputText = [])
         \<and> (\<forall>k v. k < length infos \<and> collection settings inputText ! k = Some v
                     \<and> length (split '' '' v) < 3
               \<longrightarrow> infos ! k = \<lparr>info_id = index (split '' '' v) 1, info_time = Num 0, info_text = []\<rparr>)"
proof -
  from assms obtain vs where c: "collection settings inputText = map Some vs"
      and infos: "infos = map timeTrackerTemplateInfo vs"
    by (auto simp: extraction_Inr)
  have "infos = [] \<longleftrightarrow> collection settings inputText = []"
    by (simp add: c infos)
  then have "infos = [] \<longleftrightarrow> matchAll (regexp settings) inputText = []"
    by (simp add: collection_empty_iff)
  moreover have "infos ! k = \<lparr>info_id = index (split '' '' v) 1, info_time = Num 0, info_text = []\<rparr>"
    if "k < length infos" "collection settings inputText ! k = Some v" "length (split '' '' v) < 3" for k v
  proof -
    from that(1,2) have "vs ! k = v" by (simp add: c infos)
    with that(1) have "infos ! k = timeTrackerTemplateInfo v" by (simp add: infos)
    with that(3) show ?thesis by (simp add: short_match)
  qed
  moreover have "length infos = length (collection settings inputText)"
    by (simp add: c infos)
  ultimately show ?thesis by blast
qed

text \<open>
  The text of the counterexample.
\<close>

theorem short_match_record_witness:
  "getTimeTrackerTemplateInfo DEFAULT_SETTINGS ([CHR 0x60] @ ''tt '' @ [CHR 0x60])
       = Inr [\<lparr>info_id = Some [CHR 0x60], info_time = Num 0, info_text = []\<rparr>]
   \<and> length (split '' '' ([CHR 0x60] @ ''tt '' @ [CHR 0x60])) < 3
   \<and> collection DEFAULT_SETTINGS ([CHR 0x60] @ ''tt '' @ [CHR 0x60]) ! 0 = Some ([CHR 0x60] @ ''tt '' @ [CHR 0x60])
   \<and> length (collection DEFAULT_SETTINGS ([CHR 0x60] @ ''tt '' @ [CHR 0x60])) = 1
   \<and> matchAll (regexp DEFAULT_SETTINGS) ([CHR 0x60] @ ''tt '' @ [CHR 0x60]) \<noteq> []
   \<and> [\<lparr>info_id = Some [CHR 0x60], info_time = Num 0, info_text = []\<rparr>] ! 0
       = \<lparr>info_id = index (split '' '' ([CHR 0x60] @ ''tt '' @ [CHR 0x60])) 1, info_time = Num 0, info_text = []\<rparr>"
proof -
  let ?t = "[CHR 0x60] @ ''tt '' @ [CHR 0x60]"
  let ?r = "\<lparr>info_id = Some [CHR 0x60], info_time = Num 0, info_text = []\<rparr>"
  have h: "getTimeTrackerTemplateInfo DEFAULT_SETTINGS ?t = Inr [?r]" by code_simp
  have l: "length (split '' '' ?t) < 3" by code_simp
  have c: "collection DEFAULT_SETTINGS ?t ! 0 = Some ?t" by code_simp
  note t = short_match_record [OF h]
  from t have t1: "length [?r] = length (collection DEFAULT_SETTINGS ?t)" by blast
  from t have t2: "([?r] = []) = (matchAll (regexp DEFAULT_SETTINGS) ?t = [])" by blast
  from t have "0 < length [?r] \<and> collection DEFAULT_SETTINGS ?t ! 0 = Some ?t \<and> length (split '' '' ?t) < 3
      \<longrightarrow> [?r] ! 0 = \<lparr>info_id = index (split '' '' ?t) 1, info_time = Num 0, info_text = []\<rparr>"
    by blast
  with l c have t3: "[?r] ! 0 = \<lparr>info_id = index (split '' '' ?t) 1, info_time = Num 0, info_text = []\<rparr>"
    by simp
  from t1 have t1': "length (collection DEFAULT_SETTINGS ?t) = 1" by simp
  from t2 have t2': "matchAll (regexp DEFAULT_SETTINGS) ?t \<noteq> []" by simp
  from h l c t1' t2' t3 show ?thesis by (intro conjI)
qed

section \<open>Matches with exactly three tokens\<close>




end
